theory Spec2Isabelle
  imports Complex_Main
begin

section \<open>Backend scalars\<close>

text \<open>
  The integrators compute with zero-dimensional backend tensors. Their arithmetic never
  raises: a division by zero gives an infinity or a NaN, and the code tests for NaN with
  \<open>anp.isnan\<close>. The model keeps these special values and computes exactly on the
  finite ones: a scalar is a real number, one of the two infinities, or NaN. Rounding,
  overflow and the sign of zero are outside the model (a finite value divided by zero
  follows the sign of the numerator, as for a positive zero).
\<close>

datatype fl = Fin real | PInf | MInf | NaN

fun isnan :: "fl \<Rightarrow> bool" where
  "isnan NaN = True"
| "isnan _ = False"

fun isfinite :: "fl \<Rightarrow> bool" where
  "isfinite (Fin _) = True"
| "isfinite _ = False"

fun fneg :: "fl \<Rightarrow> fl" where
  "fneg (Fin a) = Fin (- a)"
| "fneg PInf = MInf"
| "fneg MInf = PInf"
| "fneg NaN = NaN"

fun fadd :: "fl \<Rightarrow> fl \<Rightarrow> fl" where
  "fadd (Fin a) (Fin b) = Fin (a + b)"
| "fadd (Fin a) PInf = PInf"
| "fadd (Fin a) MInf = MInf"
| "fadd PInf (Fin b) = PInf"
| "fadd MInf (Fin b) = MInf"
| "fadd PInf PInf = PInf"
| "fadd MInf MInf = MInf"
| "fadd PInf MInf = NaN"
| "fadd MInf PInf = NaN"
| "fadd NaN _ = NaN"
| "fadd _ NaN = NaN"

definition fsub :: "fl \<Rightarrow> fl \<Rightarrow> fl" where
  "fsub a b = fadd a (fneg b)"

fun fmul :: "fl \<Rightarrow> fl \<Rightarrow> fl" where
  "fmul (Fin a) (Fin b) = Fin (a * b)"
| "fmul (Fin a) PInf = (if a = 0 then NaN else if 0 < a then PInf else MInf)"
| "fmul (Fin a) MInf = (if a = 0 then NaN else if 0 < a then MInf else PInf)"
| "fmul PInf (Fin b) = (if b = 0 then NaN else if 0 < b then PInf else MInf)"
| "fmul MInf (Fin b) = (if b = 0 then NaN else if 0 < b then MInf else PInf)"
| "fmul PInf PInf = PInf"
| "fmul MInf MInf = PInf"
| "fmul PInf MInf = MInf"
| "fmul MInf PInf = MInf"
| "fmul NaN _ = NaN"
| "fmul _ NaN = NaN"

fun fdiv :: "fl \<Rightarrow> fl \<Rightarrow> fl" where
  "fdiv (Fin a) (Fin b) =
     (if b = 0 then (if a = 0 then NaN else if 0 < a then PInf else MInf)
      else Fin (a / b))"
| "fdiv (Fin a) PInf = Fin 0"
| "fdiv (Fin a) MInf = Fin 0"
| "fdiv PInf (Fin b) = (if 0 \<le> b then PInf else MInf)"
| "fdiv MInf (Fin b) = (if 0 \<le> b then MInf else PInf)"
| "fdiv PInf PInf = NaN"
| "fdiv PInf MInf = NaN"
| "fdiv MInf PInf = NaN"
| "fdiv MInf MInf = NaN"
| "fdiv NaN _ = NaN"
| "fdiv _ NaN = NaN"

fun fsqrt :: "fl \<Rightarrow> fl" where
  "fsqrt (Fin a) = (if a < 0 then NaN else Fin (sqrt a))"
| "fsqrt PInf = PInf"
| "fsqrt MInf = NaN"
| "fsqrt NaN = NaN"

fun fabs :: "fl \<Rightarrow> fl" where
  "fabs (Fin a) = Fin \<bar>a\<bar>"
| "fabs PInf = PInf"
| "fabs MInf = PInf"
| "fabs NaN = NaN"




text \<open>Comparisons with a NaN operand are false.\<close>

fun flt :: "fl \<Rightarrow> fl \<Rightarrow> bool" where
  "flt (Fin a) (Fin b) = (a < b)"
| "flt (Fin a) PInf = True"
| "flt MInf (Fin b) = True"
| "flt MInf PInf = True"
| "flt _ _ = False"

definition fgt :: "fl \<Rightarrow> fl \<Rightarrow> bool" where
  "fgt a b = flt b a"

definition fge :: "fl \<Rightarrow> fl \<Rightarrow> bool" where
  "fge a b = (flt b a \<or> (\<not> isnan a \<and> a = b))"

text \<open>\<open>anp.minimum\<close>: the element-wise minimum, NaN if either operand is NaN.\<close>

definition fminimum :: "fl \<Rightarrow> fl \<Rightarrow> fl" where
  "fminimum a b = (if isnan a \<or> isnan b then NaN else if flt b a then b else a)"

text \<open>\<open>pow(x, 2)\<close> and \<open>x ** 2\<close>.\<close>

definition fsq :: "fl \<Rightarrow> fl" where
  "fsq a = fmul a a"

text \<open>The sum of a tensor's entries (\<open>.sum()\<close>), and a Python accumulation started at 0.\<close>

definition fsum :: "fl list \<Rightarrow> fl" where
  "fsum xs = foldl fadd (Fin 0) xs"

text \<open>\<open>anp.mean\<close> of a one-dimensional array.\<close>

definition fmean :: "fl list \<Rightarrow> fl" where
  "fmean xs = fdiv (fsum xs) (Fin (real (length xs)))"

section \<open>Errors\<close>

datatype error = IndexError | ZeroDivisionError | ConfigurationError

section \<open>Combining the iterations (vegas.py, helper functions)\<close>

text \<open>
  \<open>_get_result\<close>: the loop runs over \<open>self.results\<close> and reads \<open>self.sigma2[idx]\<close>,
  which raises IndexError when \<open>sigma2\<close> is the shorter list. The two accumulators
  start as the Python integers 0, so with no record at all the quotient \<open>0 / 0\<close> raises
  ZeroDivisionError.
\<close>

fun result_sums :: "fl list \<Rightarrow> fl list \<Rightarrow> fl \<Rightarrow> fl \<Rightarrow> error + (fl \<times> fl)" where
  "result_sums [] sigma2 res_num res_den = Inr (res_num, res_den)"
| "result_sums (res # results) [] res_num res_den = Inl IndexError"
| "result_sums (res # results) (sig # sigma2) res_num res_den =
     result_sums results sigma2 (fadd res_num (fdiv res sig)) (fadd res_den (fdiv (Fin 1) sig))"

definition get_result :: "fl list \<Rightarrow> fl list \<Rightarrow> error + fl" where
  "get_result results sigma2 =
     (case result_sums results sigma2 (Fin 0) (Fin 0) of
        Inl e \<Rightarrow> Inl e
      | Inr (res_num, res_den) \<Rightarrow>
          if results = [] then Inl ZeroDivisionError
          else if isnan (fdiv res_num res_den) then Inr (fmean results)
          else Inr (fdiv res_num res_den))"

text \<open>\<open>_get_error\<close>.\<close>

definition get_error :: "fl list \<Rightarrow> fl" where
  "get_error sigma2 =
     fdiv (Fin 1) (fsqrt (foldl (\<lambda>res sig. fadd res (fdiv (Fin 1) sig)) (Fin 0) sigma2))"

text \<open>\<open>_get_chisq\<close>.\<close>

fun chisq_sum :: "fl \<Rightarrow> fl list \<Rightarrow> fl list \<Rightarrow> fl \<Rightarrow> error + fl" where
  "chisq_sum I_final [] sigma2 chi2 = Inr chi2"
| "chisq_sum I_final (res # results) [] chi2 = Inl IndexError"
| "chisq_sum I_final (res # results) (sig # sigma2) chi2 =
     chisq_sum I_final results sigma2 (fadd chi2 (fdiv (fsq (fsub res I_final)) sig))"

definition get_chisq :: "fl list \<Rightarrow> fl list \<Rightarrow> error + fl" where
  "get_chisq results sigma2 =
     (case get_result results sigma2 of
        Inl e \<Rightarrow> Inl e
      | Inr I_final \<Rightarrow> chisq_sum I_final results sigma2 (Fin 0))"


section \<open>The collaborators of the VEGAS integrator\<close>

text \<open>
  \<open>VEGASMap\<close>, \<open>VEGASStratification\<close>, \<open>RNG\<close> and \<open>_setup_integration_domain\<close> are
  imported by vegas.py from modules that are not part of the sources at hand. The
  integrator is modelled over any implementation of them: \<open>'m\<close> is the state of the
  adaptive map, \<open>'s\<close> of the stratification, \<open>'r\<close> of the random number generator, and
  \<open>'g\<close> is whatever an unseeded generator is initialised from. The stratification
  draws from the integrator's generator, so \<open>strat_get_Y\<close> takes and returns its state.
  Batches of unit-cube points are lists of rows of reals. \<open>_setup_integration_domain\<close>
  either returns the domain or raises (\<open>None\<close>); its error is a configuration error.
\<close>

record ('m, 's, 'r, 'g) components =
  setup_integration_domain :: "int \<Rightarrow> fl list list option \<Rightarrow> string \<Rightarrow> fl list list option"
  rng_seeded :: "int \<Rightarrow> 'r"
  rng_unseeded :: "'g \<Rightarrow> 'r"
  rng_uniform :: "'r \<Rightarrow> int \<Rightarrow> int \<Rightarrow> real list list \<times> 'r"
  map_init :: "int \<Rightarrow> fl list list \<Rightarrow> int \<Rightarrow> 'm"
  map_get_X :: "'m \<Rightarrow> real list list \<Rightarrow> fl list list"
  map_get_Jac :: "'m \<Rightarrow> real list list \<Rightarrow> fl list"
  map_accumulate_weight :: "'m \<Rightarrow> real list list \<Rightarrow> fl list \<Rightarrow> 'm"
  map_update_map :: "'m \<Rightarrow> 'm"
  strat_init :: "int \<Rightarrow> int \<Rightarrow> 's"
  strat_get_NH :: "'s \<Rightarrow> fl \<Rightarrow> int list"
  strat_get_Y :: "'s \<Rightarrow> 'r \<Rightarrow> int list \<Rightarrow> real list list \<times> 'r"
  strat_accumulate_weight :: "'s \<Rightarrow> int list \<Rightarrow> fl list \<Rightarrow> (fl list \<times> fl list) \<times> 's"
  strat_update_DH :: "'s \<Rightarrow> 's"
  strat_V_cubes :: "'s \<Rightarrow> fl"

text \<open>
  Modelled from the spec: the constructor \<open>RNG(backend, seed)\<close> of the missing module
  \<open>utils\<close>. The spec's RandomSource is seedable and deterministic given a seed; the seed
  is "only set if provided", so without one the generator starts from ambient state.
\<close>

definition RNG :: "('m, 's, 'r, 'g) components \<Rightarrow> int option \<Rightarrow> 'g \<Rightarrow> 'r" where
  "RNG c seed ambient =
     (case seed of Some k \<Rightarrow> rng_seeded c k | None \<Rightarrow> rng_unseeded c ambient)"

text \<open>
  Modelled from the spec: \<open>_check_inputs\<close> of the missing base class
  \<open>BaseIntegrator\<close>, after the spec's ConfigurationError: \<open>dim \<le> 0\<close>; \<open>N\<close> too small to
  give every cube its minimum of 2 evaluations (the stratification never has fewer than
  one cube, so fewer than 2 evaluations serve no cube); a bound that is not a pair
  or whose lower end is not below its upper end; a domain whose length is not \<open>dim\<close>.
  (The dimension is written \<open>ndim\<close>, \<open>dim\<close> being a constant of the library.)
  No domain (\<open>None\<close>) stands for the default domain and is not checked.
\<close>

definition bad_bound :: "fl list \<Rightarrow> bool" where
  "bad_bound b = (case b of [lo, hi] \<Rightarrow> \<not> flt lo hi | _ \<Rightarrow> True)"

definition check_inputs :: "int \<Rightarrow> int \<Rightarrow> fl list list option \<Rightarrow> error option" where
  "check_inputs ndim N integration_domain =
     (if ndim \<le> 0 then Some ConfigurationError
      else if N < 2 then Some ConfigurationError
      else case integration_domain of
             None \<Rightarrow> None
           | Some d \<Rightarrow>
               if list_ex bad_bound d then Some ConfigurationError
               else if int (length d) \<noteq> ndim then Some ConfigurationError
               else None)"

text \<open>
  Modelled from the spec: the configuration error of the constructor of the missing
  \<open>VEGASStratification\<close>, which is handed \<open>N // max_iterations\<close> evaluations per
  iteration. It has \<open>N_strat = max(1, floor((requested_N / 2)^(1/dim)))\<close> to the power
  \<open>dim\<close> cubes, so never fewer than one and never more than \<open>requested_N / 2\<close> once
  \<open>requested_N\<close> is at least 2: every cube gets its minimum of 2 evaluations exactly when
  \<open>requested_N\<close> is at least 2.
\<close>

definition stratification_check :: "int \<Rightarrow> error option" where
  "stratification_check requested_N =
     (if requested_N < 2 then Some ConfigurationError else None)"

section \<open>The state of one VEGAS integrator object\<close>

text \<open>
  The attributes of \<open>self\<close> that vegas.py reads. \<open>self.alpha\<close> and \<open>self.starting_N\<close>
  (without underscore) are only ever written, and \<open>backend\<close> and \<open>dtype\<close> only select the
  numeric library, so they are left out. \<open>_starting_N\<close> starts as an integer and can become
  a backend scalar in the stability check, so it is a scalar throughout.
\<close>

record ('m, 's, 'r) vegas =
  self_dim :: int
  nr_of_fevals :: int
  max_iterations :: int
  use_grid_improve :: bool
  self_N :: int
  starting_N :: fl
  N_increment :: int
  integration_domain :: "fl list list"
  rng :: 'r
  self_map :: 'm
  strat :: 's
  results :: "fl list"
  sigma2 :: "fl list"
  self_it :: int

text \<open>\<open>xs[-1] = v\<close> raises IndexError on an empty list.\<close>

definition set_last :: "fl list \<Rightarrow> fl \<Rightarrow> error + fl list" where
  "set_last xs v = (if xs = [] then Inl IndexError else Inr (butlast xs @ [v]))"

definition of_count :: "int \<Rightarrow> fl" where
  "of_count n = Fin (real_of_int n)"

section \<open>One sampling iteration\<close>

text \<open>
  \<open>_run_iteration\<close>. The integrand is called through \<open>self._eval\<close> of the missing base
  class, which adds the size of the batch to \<open>_nr_of_fevals\<close> (the count the warmup logs as
  its total evaluations) and applies the integrand. The method itself adds the requested
  counts to the same attribute. The estimated accuracy the method returns is only logged
  by its caller. Tensor operations on two operands are
  element-wise (\<open>map2\<close>).
\<close>

definition run_iteration ::
  "('m, 's, 'r, 'g) components \<Rightarrow> (fl list list \<Rightarrow> fl list) \<Rightarrow> ('m, 's, 'r) vegas
     \<Rightarrow> error + ('m, 's, 'r) vegas" where
  "run_iteration c fn st =
     (let neval = strat_get_NH c (strat st) (starting_N st);
          (y, rng1) = strat_get_Y c (strat st) (rng st) neval;
          x = map_get_X c (self_map st) y;
          nr = nr_of_fevals st + sum_list neval + int (length x);
          f_eval = fn x;
          jac = map_get_Jac c (self_map st) y;
          jf_vec = map2 fmul f_eval jac;
          jf_vec2 = map fsq jf_vec;
          map1 = (if use_grid_improve st
                  then map_accumulate_weight c (self_map st) y jf_vec2 else self_map st);
          ((jf, jf2), strat1) = strat_accumulate_weight c (strat st) neval jf_vec;
          V_cubes = strat_V_cubes c strat1;
          nevalf = map of_count neval;
          ih = map2 (\<lambda>j n. fmul (fdiv j n) V_cubes) jf nevalf;
          sig2 = map2 (\<lambda>(j2, n) i. fsub (fmul (fdiv j2 n) (fsq V_cubes)) (fsq i))
                   (zip jf2 nevalf) ih
      in case set_last (results st) (fsum ih) of
           Inl e \<Rightarrow> Inl e
         | Inr results1 \<Rightarrow>
             (case set_last (sigma2 st) (fsum (map2 fdiv sig2 nevalf)) of
                Inl e \<Rightarrow> Inl e
              | Inr sigma21 \<Rightarrow>
                  Inr (st\<lparr>nr_of_fevals := nr, rng := rng1,
                          self_map := (if use_grid_improve st then map_update_map c map1 else map1),
                          strat := strat_update_DH c strat1,
                          results := results1, sigma2 := sigma21\<rparr>)))"

section \<open>Warmup\<close>

text \<open>The unit-cube sample of a warmup iteration: the uniform draw times 0.999999.\<close>

definition warmup_yrnd :: "real list list \<Rightarrow> real list list" where
  "warmup_yrnd u = map (map (\<lambda>v. v * 0.999999)) u"

text \<open>
  The body of the loop of \<open>_warmup_grid\<close>. A 0 is appended to both record lists and
  the iteration's values are then added to these last entries. \<open>self._eval\<close> counts the
  batch here too.
\<close>

definition warmup_iteration ::
  "('m, 's, 'r, 'g) components \<Rightarrow> (fl list list \<Rightarrow> fl list) \<Rightarrow> int \<Rightarrow> ('m, 's, 'r) vegas
     \<Rightarrow> ('m, 's, 'r) vegas" where
  "warmup_iteration c fn N_samples st =
     (let (u, rng1) = rng_uniform c (rng st) N_samples (self_dim st);
          yrnd = warmup_yrnd u;
          x = map_get_X c (self_map st) yrnd;
          f_eval = fn x;
          jac = map_get_Jac c (self_map st) yrnd;
          jf_vec = map2 fmul f_eval jac;
          jf_vec2 = map fsq jf_vec;
          map1 = map_accumulate_weight c (self_map st) yrnd jf_vec2;
          jf = fsum jf_vec;
          jf2 = fsum jf_vec2;
          ih = fdiv jf (of_count N_samples);
          sig2 = fsub (fdiv jf2 (of_count N_samples)) (fsq (fdiv jf (of_count N_samples)))
      in st\<lparr>nr_of_fevals := nr_of_fevals st + int (length x),
             results := results st @ [fadd (Fin 0) ih],
             sigma2 := sigma2 st @ [fadd (Fin 0) (fdiv sig2 (of_count N_samples))],
             rng := rng1,
             self_map := map_update_map c map1\<rparr>)"

primrec warmup_loop ::
  "('m, 's, 'r, 'g) components \<Rightarrow> (fl list list \<Rightarrow> fl list) \<Rightarrow> int \<Rightarrow> nat
     \<Rightarrow> ('m, 's, 'r) vegas \<Rightarrow> ('m, 's, 'r) vegas" where
  "warmup_loop c fn N_samples 0 st = st"
| "warmup_loop c fn N_samples (Suc k) st =
     warmup_loop c fn N_samples k (warmup_iteration c fn N_samples st)"

text \<open>\<open>_warmup_grid\<close>: the iterations, then both record lists are cleared.\<close>

definition warmup_grid ::
  "('m, 's, 'r, 'g) components \<Rightarrow> (fl list list \<Rightarrow> fl list) \<Rightarrow> nat \<Rightarrow> int
     \<Rightarrow> ('m, 's, 'r) vegas \<Rightarrow> ('m, 's, 'r) vegas" where
  "warmup_grid c fn warmup_N_it N_samples st =
     (warmup_loop c fn N_samples warmup_N_it st)\<lparr>results := [], sigma2 := []\<rparr>"


section \<open>The main loop\<close>

text \<open>One pass of the loop either leaves it (\<open>break\<close>) or goes on to the next pass.\<close>

datatype 'a outcome = Break 'a | Proceed 'a

text \<open>
  The "additional abort conditions depending on achieved errors", run when
  \<open>self.it % 5 == 0\<close>. \<open>eps_rel\<close> and \<open>eps_abs\<close> are Python floats.
\<close>

definition stability_check ::
  "real \<Rightarrow> real \<Rightarrow> ('m, 's, 'r) vegas \<Rightarrow> error + ('m, 's, 'r) vegas outcome" where
  "stability_check eps_rel eps_abs st =
     (case get_result (results st) (sigma2 st) of
        Inl e \<Rightarrow> Inl e
      | Inr res \<Rightarrow>
          (let err = get_error (sigma2 st) in
           case get_chisq (results st) (sigma2 st) of
             Inl e \<Rightarrow> Inl e
           | Inr chi2 \<Rightarrow>
               (let acc0 = fdiv err res;
                    acc = (if isnan acc0 then Fin 0 else acc0)
                in if (flt acc (Fin eps_rel) \<or> flt err (Fin eps_abs))
                      \<and> flt (fdiv chi2 (Fin 5)) (Fin 1)
                   then Inr (Break st)
                   else if flt (fdiv chi2 (Fin 5)) (Fin 1)
                   then Inr (Proceed (st\<lparr>
                          starting_N :=
                            fminimum (fadd (starting_N st) (of_count (N_increment st)))
                              (fmul (starting_N st)
                                 (fsqrt (fdiv acc (Fin (eps_rel + 1 / 10 ^ 8))))),
                          results := [], sigma2 := []\<rparr>))
                   else if fgt (fdiv chi2 (Fin 5)) (Fin 1)
                   then Inr (Proceed (st\<lparr>
                          starting_N := fadd (starting_N st) (of_count (N_increment st)),
                          results := [], sigma2 := []\<rparr>))
                   else Inr (Proceed st))))"

text \<open>The body of \<open>while True\<close>.\<close>

definition loop_body ::
  "('m, 's, 'r, 'g) components \<Rightarrow> (fl list list \<Rightarrow> fl list) \<Rightarrow> real \<Rightarrow> real
     \<Rightarrow> ('m, 's, 'r) vegas \<Rightarrow> error + ('m, 's, 'r) vegas outcome" where
  "loop_body c fn eps_rel eps_abs st =
     (case run_iteration c fn
             (st\<lparr>self_it := self_it st + 1,
                  results := results st @ [Fin 0], sigma2 := sigma2 st @ [Fin 0]\<rparr>) of
        Inl e \<Rightarrow> Inl e
      | Inr st1 \<Rightarrow>
          if self_it st1 > max_iterations st1 then Inr (Break st1)
          else if fgt (of_count (nr_of_fevals st1)) (fsub (of_count (self_N st1)) (starting_N st1))
          then Inr (Break st1)
          else if self_it st1 mod 5 = 0 then stability_check eps_rel eps_abs st1
          else Inr (Proceed st1))"

lemma run_iteration_frame:
  assumes "run_iteration c fn st = Inr st'"
  shows "self_it st' = self_it st" and "max_iterations st' = max_iterations st"
    and "N_increment st' = N_increment st" and "self_N st' = self_N st"
    and "starting_N st' = starting_N st"
  using assms unfolding run_iteration_def Let_def
  by (auto split: prod.splits sum.splits)

lemma stability_check_frame:
  assumes "stability_check eps_rel eps_abs st = Inr out"
  shows "out = Break st
     \<or> (\<exists>st'. out = Proceed st' \<and> self_it st' = self_it st
            \<and> max_iterations st' = max_iterations st)"
  using assms unfolding stability_check_def Let_def
  by (auto split: sum.splits if_splits)

lemma loop_body_Proceed:
  assumes "loop_body c fn eps_rel eps_abs st = Inr (Proceed st')"
  shows "self_it st' = self_it st + 1 \<and> max_iterations st' = max_iterations st
     \<and> self_it st' \<le> max_iterations st'"
proof -
  obtain st1 where run: "run_iteration c fn
             (st\<lparr>self_it := self_it st + 1,
                  results := results st @ [Fin 0], sigma2 := sigma2 st @ [Fin 0]\<rparr>) = Inr st1"
    using assms unfolding loop_body_def by (auto split: sum.splits)
  have it1: "self_it st1 = self_it st + 1" and m1: "max_iterations st1 = max_iterations st"
    using run_iteration_frame(1,2)[OF run] by simp_all
  have le: "self_it st1 \<le> max_iterations st1"
    using assms run unfolding loop_body_def by (auto split: if_splits)
  have "st' = st1 \<or> (self_it st' = self_it st1 \<and> max_iterations st' = max_iterations st1)"
    using assms run stability_check_frame[of eps_rel eps_abs st1 "Proceed st'"]
    unfolding loop_body_def by (auto split: if_splits)
  then show ?thesis using it1 m1 le by auto
qed

function main_loop ::
  "('m, 's, 'r, 'g) components \<Rightarrow> (fl list list \<Rightarrow> fl list) \<Rightarrow> real \<Rightarrow> real
     \<Rightarrow> ('m, 's, 'r) vegas \<Rightarrow> error + ('m, 's, 'r) vegas" where
  "main_loop c fn eps_rel eps_abs st =
     (case loop_body c fn eps_rel eps_abs st of
        Inl e \<Rightarrow> Inl e
      | Inr (Break st') \<Rightarrow> Inr st'
      | Inr (Proceed st') \<Rightarrow> main_loop c fn eps_rel eps_abs st')"
  by pat_completeness auto
termination
proof (relation "measure (\<lambda>(c, fn, eps_rel, eps_abs, st).
                   nat (max_iterations st + 1 - self_it st))")
  show "wf (measure (\<lambda>(c :: ('m, 's, 'r, 'g) components, fn :: fl list list \<Rightarrow> fl list,
                       eps_rel :: real, eps_abs :: real, st :: ('m, 's, 'r) vegas).
                   nat (max_iterations st + 1 - self_it st)))"
    by simp
next
  fix c :: "('m, 's, 'r, 'g) components" and fn :: "fl list list \<Rightarrow> fl list"
    and eps_rel eps_abs :: real and st :: "('m, 's, 'r) vegas" and out st'
  assume "loop_body c fn eps_rel eps_abs st = Inr out" and "out = Proceed st'"
  then have "loop_body c fn eps_rel eps_abs st = Inr (Proceed st')" by simp
  from loop_body_Proceed[OF this]
  show "((c, fn, eps_rel, eps_abs, st'), (c, fn, eps_rel, eps_abs, st))
          \<in> measure (\<lambda>(c, fn, eps_rel, eps_abs, st).
                   nat (max_iterations st + 1 - self_it st))"
    by simp
qed

section \<open>integrate\<close>

text \<open>The number of intervals of the adaptive map: at least 2.\<close>

definition N_intervals :: "int \<Rightarrow> int \<Rightarrow> int" where
  "N_intervals N max_it = max 2 ((N div max_it) div 10)"

text \<open>
  \<open>VEGAS.integrate\<close> from the assignment of the attributes to the warmup: the state the main
  loop starts from. \<open>self\<close> is the object as the call finds it, \<open>sdomain\<close> the domain that
  \<open>_setup_integration_domain\<close> returned.
\<close>

definition prepare ::
  "('m, 's, 'r, 'g) components \<Rightarrow> 'g \<Rightarrow> ('m, 's, 'r) vegas \<Rightarrow> (fl list list \<Rightarrow> fl list)
     \<Rightarrow> int \<Rightarrow> int \<Rightarrow> fl list list \<Rightarrow> int option \<Rightarrow> bool \<Rightarrow> int \<Rightarrow> bool
     \<Rightarrow> ('m, 's, 'r) vegas" where
  "prepare c ambient self fn ndim N sdomain seed grid_improve max_it use_warmup =
     (let st0 = self\<lparr>self_dim := ndim, nr_of_fevals := 0, max_iterations := max_it,
                      use_grid_improve := grid_improve, self_N := N,
                      starting_N := of_count (N div max_it),
                      N_increment := N div max_it,
                      integration_domain := sdomain,
                      rng := RNG c seed ambient,
                      self_map := map_init c ndim sdomain (N_intervals N max_it),
                      strat := strat_init c (N div max_it) ndim,
                      results := [], sigma2 := [], self_it := 0\<rparr>
      in if use_warmup then warmup_grid c fn 5 ((N div max_it) div 5) st0 else st0)"

text \<open>
  \<open>VEGAS.integrate\<close>. \<open>N // max_iterations\<close> raises ZeroDivisionError for
  \<open>max_iterations = 0\<close>, before the domain is set up; the stratification is constructed
  after the domain is set up and before the warmup. The result is the combined estimate
  together with the object as the call leaves it.
\<close>

definition integrate ::
  "('m, 's, 'r, 'g) components \<Rightarrow> 'g \<Rightarrow> ('m, 's, 'r) vegas \<Rightarrow> (fl list list \<Rightarrow> fl list)
     \<Rightarrow> int \<Rightarrow> int \<Rightarrow> fl list list option \<Rightarrow> int option \<Rightarrow> bool \<Rightarrow> real \<Rightarrow> real \<Rightarrow> int
     \<Rightarrow> bool \<Rightarrow> string \<Rightarrow> error + (fl \<times> ('m, 's, 'r) vegas)" where
  "integrate c ambient self fn ndim N domain seed grid_improve eps_rel eps_abs max_it
       use_warmup backend =
     (case check_inputs ndim N domain of
        Some e \<Rightarrow> Inl e
      | None \<Rightarrow>
          if max_it = 0 then Inl ZeroDivisionError
          else
            (case setup_integration_domain c ndim domain backend of
               None \<Rightarrow> Inl ConfigurationError
             | Some sdomain \<Rightarrow>
                 (case stratification_check (N div max_it) of
                    Some e \<Rightarrow> Inl e
                  | None \<Rightarrow>
                      (case main_loop c fn eps_rel eps_abs
                              (prepare c ambient self fn ndim N sdomain seed grid_improve max_it
                                 use_warmup) of
                         Inl e \<Rightarrow> Inl e
                       | Inr st2 \<Rightarrow>
                           (case get_result (results st2) (sigma2 st2) of
                              Inl e \<Rightarrow> Inl e
                            | Inr v \<Rightarrow> Inr (v, st2))))))"

text \<open>What a call reports: the estimate, the number of sampling iterations, the evaluations.\<close>

definition report ::
  "error + (fl \<times> ('m, 's, 'r) vegas) \<Rightarrow> error + (fl \<times> int \<times> int)" where
  "report r =
     (case r of Inl e \<Rightarrow> Inl e | Inr (v, st) \<Rightarrow> Inr (v, self_it st, nr_of_fevals st))"

text \<open>The records a call ends with.\<close>

definition final_records ::
  "error + (fl \<times> ('m, 's, 'r) vegas) \<Rightarrow> fl list \<times> fl list" where
  "final_records r = (case r of Inl e \<Rightarrow> ([], []) | Inr (v, st) \<Rightarrow> (results st, sigma2 st))"

section \<open>Gaussian quadrature (gaussian.py)\<close>

text \<open>
  The four rules are the subclasses of \<open>Gaussian\<close>; an object carries the attributes its
  \<open>__init__\<close> sets. A tensor is a scalar, a vector or a matrix (a list of rows).
\<close>

datatype rule = GaussLegendre | GaussJacobi real real | GaussLaguerre | GaussHermite

datatype tensor = T0 fl | T1 "fl list" | T2 "fl list list"

datatype gerror = ValueError | Raised error

record gaussian =
  g_rule :: rule
  g_name :: string
  root_args :: "real list"
  default_integration_domain :: "fl list list"
  transform_interval :: bool
  g_cache :: "(int \<times> real list) \<rightharpoonup> (fl list \<times> fl list)"

text \<open>\<open>__init__\<close> of each class, the base class's first.\<close>

definition Gaussian_init :: "rule \<Rightarrow> gaussian" where
  "Gaussian_init r =
     \<lparr>g_rule = r, g_name = ''Gauss-Legendre'', root_args = [],
      default_integration_domain = [[Fin (- 1), Fin 1]], transform_interval = True,
      g_cache = Map.empty\<rparr>"

fun new :: "rule \<Rightarrow> gaussian" where
  "new GaussLegendre = Gaussian_init GaussLegendre"
| "new (GaussJacobi alpha beta) =
     (Gaussian_init (GaussJacobi alpha beta))\<lparr>g_name := ''Gauss-Jacobi'', root_args := [alpha, beta]\<rparr>"
| "new GaussLaguerre =
     (Gaussian_init GaussLaguerre)\<lparr>g_name := ''Gauss-Laguerre'',
        default_integration_domain := [[Fin 0, PInf]]\<rparr>"
| "new GaussHermite =
     (Gaussian_init GaussHermite)\<lparr>g_name := ''Gauss-Hermite'',
        default_integration_domain := [[fmul (Fin (- 1)) PInf, PInf]]\<rparr>"

text \<open>
  What gaussian.py takes from elsewhere: \<open>_setup_integration_domain\<close> and \<open>_eval\<close> (with
  the integrand, the points, the extra arguments and the weights) of modules that are not
  part of the sources, and the root functions of numpy and scipy, called with the degree
  and the rule's own arguments. \<open>_check_inputs\<close> is the one modelled above.
\<close>

record 'a quadrature =
  q_setup_integration_domain :: "int \<Rightarrow> fl list list \<Rightarrow> string option \<Rightarrow> error + fl list list"
  q_root_fn :: "rule \<Rightarrow> int \<Rightarrow> real list \<Rightarrow> fl list \<times> fl list"
  q_eval :: "(fl list list \<Rightarrow> 'a option \<Rightarrow> fl list list) \<Rightarrow> tensor \<Rightarrow> 'a option \<Rightarrow> tensor
               \<Rightarrow> fl list list"

text \<open>\<open>_cached_roots\<close>.\<close>

definition cached_roots ::
  "'a quadrature \<Rightarrow> gaussian \<Rightarrow> int \<times> real list \<Rightarrow> (fl list \<times> fl list) \<times> gaussian" where
  "cached_roots q self rargs =
     (case g_cache self rargs of
        Some r \<Rightarrow> (r, self)
      | None \<Rightarrow>
          (let r = q_root_fn q (g_rule self) (fst rargs) (snd rargs)
           in (r, self\<lparr>g_cache := (g_cache self)(rargs \<mapsto> r)\<rparr>)))"

text \<open>
  \<open>wrapper_func\<close>: Gauss-Legendre and Gauss-Jacobi scale the points from \<open>[-1, 1]\<close> to the
  bounds \<open>a\<close>, \<open>b\<close> (the columns of the domain); the other two rules have none.
\<close>

definition outer :: "fl list \<Rightarrow> fl list \<Rightarrow> fl list list" where
  "outer a x = map (\<lambda>ai. map (fmul ai) x) a"

definition column :: "nat \<Rightarrow> fl list list \<Rightarrow> fl list" where
  "column k d = map (\<lambda>row. row ! k) d"

definition scale_points :: "fl list list \<Rightarrow> fl list \<Rightarrow> fl list list" where
  "scale_points d xi =
     (let x0 = map (\<lambda>x. fmul (Fin (1 / 2)) (fsub (Fin 1) x)) xi;
          x1 = map (\<lambda>x. fmul (Fin (1 / 2)) (fadd (Fin 1) x)) xi
      in map2 (map2 fadd) (outer (column 0 d) x0) (outer (column 1 d) x1))"

fun wrapper_func :: "rule \<Rightarrow> (fl list list \<Rightarrow> fl list \<Rightarrow> fl list \<Rightarrow> tensor \<times> tensor) option" where
  "wrapper_func GaussLegendre = Some (\<lambda>d xi wi. (T2 (scale_points d xi), T1 wi))"
| "wrapper_func (GaussJacobi alpha beta) = Some (\<lambda>d xi wi. (T2 (scale_points d xi), T1 wi))"
| "wrapper_func GaussLaguerre = None"
| "wrapper_func GaussHermite = None"

text \<open>\<open>_get_constant_multiplier\<close>.\<close>

fun get_constant_multiplier :: "rule \<Rightarrow> fl list list \<Rightarrow> tensor" where
  "get_constant_multiplier GaussLaguerre d = T0 (Fin 1)"
| "get_constant_multiplier GaussHermite d = T0 (Fin 1)"
| "get_constant_multiplier r d =
     T1 (map (fmul (Fin (1 / 2))) (map2 fsub (column 1 d) (column 0 d)))"

text \<open>
  \<open>_expand_dimension\<close>: numpy's \<open>repeat\<close> flattens its argument and repeats each entry
  \<open>dim\<close> times; the reshape to \<open>dim\<close> rows of \<open>x.shape[0]\<close> entries raises ValueError when
  the sizes do not fit.
\<close>

fun shape0 :: "tensor \<Rightarrow> nat" where
  "shape0 (T0 v) = 0"
| "shape0 (T1 xs) = length xs"
| "shape0 (T2 rows) = length rows"

fun flatten :: "tensor \<Rightarrow> fl list" where
  "flatten (T0 v) = [v]"
| "flatten (T1 xs) = xs"
| "flatten (T2 rows) = concat rows"

fun rows_of :: "nat \<Rightarrow> nat \<Rightarrow> fl list \<Rightarrow> fl list list" where
  "rows_of 0 n xs = []"
| "rows_of (Suc k) n xs = take n xs # rows_of k n (drop n xs)"

definition expand_dimension :: "int \<Rightarrow> tensor \<Rightarrow> gerror + tensor" where
  "expand_dimension ndim x =
     (let repeated = concat (map (replicate (nat ndim)) (flatten x))
      in if ndim < 0 \<or> length repeated \<noteq> nat ndim * shape0 x then Inl ValueError
         else Inr (T2 (rows_of (nat ndim) (shape0 x) repeated)))"

text \<open>\<open>_points_and_weights\<close>: the move of the roots to the domain's device changes no value.\<close>

definition points_and_weights ::
  "'a quadrature \<Rightarrow> gaussian \<Rightarrow> int \<Rightarrow> fl list list \<Rightarrow> int \<times> real list
     \<Rightarrow> gerror + ((tensor \<times> tensor) \<times> gaussian)" where
  "points_and_weights q self ndim d rargs =
     (let ((xi0, wi0), self1) = cached_roots q self rargs;
          (xi, wi) = (case wrapper_func (g_rule self) of
                        None \<Rightarrow> (T1 xi0, T1 wi0)
                      | Some w \<Rightarrow> w d xi0 wi0)
      in case (if int (shape0 xi) \<noteq> ndim then expand_dimension ndim xi else Inr xi) of
           Inl e \<Rightarrow> Inl e
         | Inr xi1 \<Rightarrow>
             (case (if int (shape0 wi) \<noteq> ndim then expand_dimension ndim wi else Inr wi) of
                Inl e \<Rightarrow> Inl e
              | Inr wi1 \<Rightarrow> Inr ((xi1, wi1), self1)))"

text \<open>The product of the constant with the row sums, summed.\<close>

fun weighted_total :: "tensor \<Rightarrow> fl list \<Rightarrow> fl" where
  "weighted_total (T0 k) row_sums = fsum (map (fmul k) row_sums)"
| "weighted_total (T1 ks) row_sums = fsum (map2 fmul ks row_sums)"
| "weighted_total (T2 rows) row_sums = fsum (concat (map (\<lambda>row. map2 fmul row row_sums) rows))"

text \<open>
  The first lines of \<open>Gaussian.integrate\<close>: the domain the rest of the method works with.
  A Python list times \<open>dim\<close> is \<open>dim\<close> copies in a row (none for \<open>dim \<le> 0\<close>).
\<close>

definition chosen_domain :: "gaussian \<Rightarrow> int \<Rightarrow> fl list list option \<Rightarrow> fl list list" where
  "chosen_domain self ndim domain =
     (case domain of
        None \<Rightarrow> concat (replicate (nat ndim) (default_integration_domain self))
      | Some d \<Rightarrow>
          if g_name self \<in> set [''Gauss-Laguerre'', ''Gauss-Hermite'']
          then concat (replicate (nat ndim) (default_integration_domain self))
          else d)"

text \<open>\<open>Gaussian.integrate\<close>: the integral and the object with its cache.\<close>

definition gaussian_integrate ::
  "'a quadrature \<Rightarrow> gaussian \<Rightarrow> (fl list list \<Rightarrow> 'a option \<Rightarrow> fl list list) \<Rightarrow> int \<Rightarrow> 'a option
     \<Rightarrow> int \<Rightarrow> fl list list option \<Rightarrow> string option \<Rightarrow> gerror + (fl \<times> gaussian)" where
  "gaussian_integrate q self fn ndim args N domain backend =
     (case q_setup_integration_domain q ndim (chosen_domain self ndim domain) backend of
        Inl e \<Rightarrow> Inl (Raised e)
      | Inr d \<Rightarrow>
          (case check_inputs ndim N (Some d) of
             Some e \<Rightarrow> Inl (Raised e)
           | None \<Rightarrow>
               (let const = get_constant_multiplier (g_rule self) d
                in case points_and_weights q self ndim d (N, root_args self) of
                     Inl e \<Rightarrow> Inl e
                   | Inr ((xi, wi), self1) \<Rightarrow>
                       Inr (weighted_total const (map fsum (q_eval q fn xi args wi)), self1))))"


text \<open>
  What the specification promises of the generator: uniform values in \<open>[0, 1)\<close>. And the
  range the warmup hands to the map: values in \<open>[0, 0.999999)\<close>.
\<close>

definition unit_samples :: "real list list \<Rightarrow> bool" where
  "unit_samples u = list_all (list_all (\<lambda>v. 0 \<le> v \<and> v < 1)) u"

definition warmup_range :: "real list list \<Rightarrow> bool" where
  "warmup_range y = list_all (list_all (\<lambda>v. 0 \<le> v \<and> v < 999999 / 1000000)) y"

text \<open>An object of a rule's class, with whatever its cache holds after earlier calls.\<close>

definition with_cache ::
  "rule \<Rightarrow> ((int \<times> real list) \<rightharpoonup> (fl list \<times> fl list)) \<Rightarrow> gaussian" where
  "with_cache r k = (new r)\<lparr>g_cache := k\<rparr>"

section \<open>The formulas of the specification\<close>

text \<open>
  The combination of the recorded iterations as the specification words it, to be compared
  with the helper functions above: the inverse-variance weighted mean
  \<open>\<Sum>(estimate / variance) / \<Sum>(1 / variance)\<close>, the unweighted mean in its place when it is
  not finite, the error \<open>sqrt(1 / \<Sum>(1 / variance))\<close>, chi-square
  \<open>\<Sum>((estimate - I)^2 / variance)\<close>, and the stopping test
  \<open>(error / |I| < eps_rel or error < eps_abs) and chi2 / 5 < 1\<close>.
\<close>

definition weighted_mean_spec :: "fl list \<Rightarrow> fl list \<Rightarrow> fl" where
  "weighted_mean_spec estimates variances =
     fdiv (fsum (map2 fdiv estimates variances)) (fsum (map (fdiv (Fin 1)) variances))"

definition combined_spec :: "fl list \<Rightarrow> fl list \<Rightarrow> fl" where
  "combined_spec estimates variances =
     (if isfinite (weighted_mean_spec estimates variances)
      then weighted_mean_spec estimates variances else fmean estimates)"

definition error_spec :: "fl list \<Rightarrow> fl" where
  "error_spec variances = fsqrt (fdiv (Fin 1) (fsum (map (fdiv (Fin 1)) variances)))"

definition chisq_spec :: "fl list \<Rightarrow> fl list \<Rightarrow> fl" where
  "chisq_spec estimates variances =
     fsum (map2 (\<lambda>e v. fdiv (fsq (fsub e (combined_spec estimates variances))) v)
             estimates variances)"

definition converged_spec :: "real \<Rightarrow> real \<Rightarrow> fl list \<Rightarrow> fl list \<Rightarrow> bool" where
  "converged_spec eps_rel eps_abs estimates variances =
     ((flt (fdiv (error_spec variances) (fabs (combined_spec estimates variances))) (Fin eps_rel)
        \<or> flt (error_spec variances) (Fin eps_abs))
      \<and> flt (fdiv (chisq_spec estimates variances) (Fin 5)) (Fin 1))"

section \<open>A small instance of the collaborators\<close>

text \<open>
  An instance to run the integrator on: a uniform map onto the box with lower corner
  \<open>lo\<close> and side \<open>width\<close> that adaptation leaves as it is, and a stratification that asks
  for the counts \<open>nh\<close> in every iteration and places the points \<open>ys\<close>, with cubes of equal
  volume. The sums per cube are those of the values handed in.
\<close>

fun per_cube :: "int list \<Rightarrow> fl list \<Rightarrow> fl list" where
  "per_cube [] xs = []"
| "per_cube (n # ns) xs = fsum (take (nat n) xs) # per_cube ns (drop (nat n) xs)"

definition demo ::
  "real \<Rightarrow> real \<Rightarrow> int list \<Rightarrow> real list list \<Rightarrow> (unit, unit, unit, unit) components" where
  "demo lo width nh ys =
     \<lparr>setup_integration_domain =
        (\<lambda>ndim d backend.
           Some (case d of
                  Some b \<Rightarrow> b
                | None \<Rightarrow> concat (replicate (nat ndim) [[Fin (- 1), Fin 1]]))),
      rng_seeded = (\<lambda>k. ()),
      rng_unseeded = (\<lambda>g. ()),
      rng_uniform = (\<lambda>r n d. (replicate (nat n) (replicate (nat d) (1 / 2)), r)),
      map_init = (\<lambda>ndim d n. ()),
      map_get_X = (\<lambda>m y. map (map (\<lambda>v. Fin (lo + width * v))) y),
      map_get_Jac = (\<lambda>m y. map (\<lambda>row. Fin (width ^ length row)) y),
      map_accumulate_weight = (\<lambda>m y w. m),
      map_update_map = (\<lambda>m. m),
      strat_init = (\<lambda>n ndim. ()),
      strat_get_NH = (\<lambda>s n. nh),
      strat_get_Y = (\<lambda>s r neval. (ys, r)),
      strat_accumulate_weight =
        (\<lambda>s neval jf_vec. ((per_cube neval jf_vec, per_cube neval (map fsq jf_vec)), s)),
      strat_update_DH = (\<lambda>s. s),
      strat_V_cubes = (\<lambda>s. Fin (1 / real (length nh)))\<rparr>"

text \<open>An object before its first call; \<open>integrate\<close> sets every attribute it reads.\<close>

definition fresh :: "(unit, unit, unit) vegas" where
  "fresh =
     \<lparr>self_dim = 0, nr_of_fevals = 0, max_iterations = 0, use_grid_improve = False,
      self_N = 0, starting_N = Fin 0, N_increment = 0, integration_domain = [],
      rng = (), self_map = (), strat = (), results = [], sigma2 = [], self_it = 0\<rparr>"

text \<open>The integrand \<open>f(x) = 1\<close>, and eight points of the unit square, two in each quarter.\<close>

definition fn_one :: "fl list list \<Rightarrow> fl list" where
  "fn_one x = map (\<lambda>row. Fin 1) x"

definition ys_square :: "real list list" where
  "ys_square =
     [[1 / 8, 1 / 8], [3 / 8, 3 / 8], [1 / 8, 5 / 8], [3 / 8, 7 / 8],
      [5 / 8, 1 / 8], [7 / 8, 3 / 8], [5 / 8, 5 / 8], [7 / 8, 7 / 8]]"

text \<open>
  The integrand \<open>f(x) = x - 2\<close> in one dimension, and four points of the unit interval,
  two in each half, for the domain \<open>[-4, 4]\<close>.
\<close>

definition fn_shift :: "fl list list \<Rightarrow> fl list" where
  "fn_shift x = map (\<lambda>row. fsub (fsum row) (Fin 2)) x"

definition ys_line :: "real list list" where
  "ys_line = [[5 / 32], [11 / 32], [23 / 32], [25 / 32]]"


text \<open>
  Two states of an integrator at its stability check, for the domain \<open>[-4, 4]\<close> with
  \<open>N = 40\<close> and \<open>max_iterations = 10\<close> (so the increment is 4): one whose five records have
  chi-square exactly 5, and one before the fifth iteration whose records will disagree.
\<close>

definition boundary_state :: "(unit, unit, unit) vegas" where
  "boundary_state =
     fresh\<lparr>self_dim := 1, nr_of_fevals := 20, max_iterations := 10, self_N := 40,
           starting_N := Fin 4, N_increment := 4,
           results := [Fin (25 / 2), Fin (15 / 2), Fin (25 / 2), Fin (15 / 2), Fin 10],
           sigma2 := [Fin 5, Fin 5, Fin 5, Fin 5, Fin 5], self_it := 5\<rparr>"

definition unstable_state :: "(unit, unit, unit) vegas" where
  "unstable_state =
     \<lparr>self_dim = 1, nr_of_fevals = 16, max_iterations = 10, use_grid_improve = True,
      self_N = 40, starting_N = Fin 4, N_increment = 4,
      integration_domain = [[Fin (- 4), Fin 4]], rng = (), self_map = (), strat = (),
      results = [Fin 4, Fin 4, Fin 4, Fin 4], sigma2 = [Fin 5, Fin 5, Fin 5, Fin 5],
      self_it = 4\<rparr>"

section \<open>Sums of scalars\<close>





lemma fadd_not_MInf: "a \<noteq> MInf \<Longrightarrow> b \<noteq> MInf \<Longrightarrow> fadd a b \<noteq> MInf"
  by (cases a; cases b) simp_all

lemma foldl_not_MInf:
  "a \<noteq> MInf \<Longrightarrow> \<forall>x\<in>set xs. x \<noteq> MInf \<Longrightarrow> foldl fadd a xs \<noteq> MInf"
  by (induction xs arbitrary: a) (simp_all add: fadd_not_MInf)

lemma recip_not_MInf: "fdiv (Fin 1) v \<noteq> MInf"
  by (cases v) simp_all




lemma recip_sqrt: "S \<noteq> MInf \<Longrightarrow> fdiv (Fin 1) (fsqrt S) = fsqrt (fdiv (Fin 1) S)"
  by (cases S) (auto simp: real_sqrt_divide)

section \<open>The combined estimate\<close>

lemma result_sums_eq:
  "length vs = length rs \<Longrightarrow>
   result_sums rs vs n d =
     Inr (foldl fadd n (map2 fdiv rs vs), foldl fadd d (map (fdiv (Fin 1)) vs))"
  by (induction vs rs arbitrary: n d rule: list_induct2) simp_all

lemma get_result_eq:
  assumes "rs \<noteq> []" and "length vs = length rs"
  shows "get_result rs vs =
     Inr (if isnan (weighted_mean_spec rs vs) then fmean rs else weighted_mean_spec rs vs)"
  using assms by (simp add: get_result_def result_sums_eq weighted_mean_spec_def fsum_def)













section \<open>The error estimate\<close>

lemma fold_recip:
  "foldl (\<lambda>res sig. fadd res (fdiv (Fin 1) sig)) a xs = foldl fadd a (map (fdiv (Fin 1)) xs)"
  by (induction xs arbitrary: a) simp_all

lemma get_error_eq: "get_error vs = error_spec vs"
  unfolding get_error_def error_spec_def fsum_def fold_recip
  by (rule recip_sqrt, rule foldl_not_MInf) (auto simp: recip_not_MInf)

lemma sqrt_125_bounds: "0.0894 < sqrt (1 / 125 :: real) \<and> sqrt (1 / 125 :: real) < 0.0895"
proof
  have "(0.0894::real)\<^sup>2 < 1 / 125" by (simp add: power2_eq_square)
  then show "0.0894 < sqrt (1 / 125 :: real)" by (rule real_less_rsqrt)
  have "(1 / 125 :: real) < (0.0895)\<^sup>2" by (simp add: power2_eq_square)
  then show "sqrt (1 / 125 :: real) < 0.0895" by (intro real_less_lsqrt) simp_all
qed

text \<open>
  C5. For every non-empty list of recorded variances, \<open>_get_error\<close> (which computes
  \<open>1 / sqrt(\<Sum>(1 / variance))\<close>) returns \<open>sqrt(1 / \<Sum>(1 / variance))\<close>; for the variances
  0.01, 0.04 this is \<open>sqrt(1 / 125)\<close>, which lies between 0.0894 and 0.0895.
\<close>

theorem get_error_formula:
  "(vs \<noteq> [] \<longrightarrow> get_error vs = error_spec vs)
   \<and> get_error [Fin 0.01, Fin 0.04] = Fin (sqrt (1 / 125))
   \<and> 0.0894 < sqrt (1 / 125 :: real) \<and> sqrt (1 / 125 :: real) < 0.0895"
proof (intro conjI impI)
  show "get_error vs = error_spec vs" by (rule get_error_eq)
  show "get_error [Fin 0.01, Fin 0.04] = Fin (sqrt (1 / 125))"
    by (simp add: get_error_def real_sqrt_divide)
  show "0.0894 < sqrt (1 / 125 :: real)" and "sqrt (1 / 125 :: real) < 0.0895"
    using sqrt_125_bounds by simp_all
qed

text \<open>The theorem at the single variance 1/4: the error is 1/2.\<close>

theorem get_error_formula_witness:
  "get_error [Fin (1 / 4)] = error_spec [Fin (1 / 4)] \<and> error_spec [Fin (1 / 4)] = Fin (1 / 2)"
  using get_error_formula[of "[Fin (1 / 4)]"]
  by (simp add: error_spec_def fsum_def real_sqrt_divide)


section \<open>Running the small instance\<close>

lemma run_demo_square:
  "rs \<noteq> [] \<Longrightarrow> ss \<noteq> [] \<Longrightarrow> run_iteration (demo 0 1 [2,2,2,2] ys_square) fn_one
     \<lparr>self_dim = d, nr_of_fevals = n, max_iterations = m, use_grid_improve = g,
      self_N = N', starting_N = sN, N_increment = ni, integration_domain = dm,
      rng = (), self_map = (), strat = (), results = rs, sigma2 = ss, self_it = i\<rparr> =
   Inr \<lparr>self_dim = d, nr_of_fevals = n + 16, max_iterations = m, use_grid_improve = g,
      self_N = N', starting_N = sN, N_increment = ni, integration_domain = dm,
      rng = (), self_map = (), strat = (), results = butlast rs @ [Fin 1], sigma2 = butlast ss @ [Fin 0], self_it = i\<rparr>"
  by (simp add: run_iteration_def demo_def ys_square_def fn_one_def fsq_def fsub_def fsum_def of_count_def Let_def set_last_def)

lemma run_demo_line:
  "rs \<noteq> [] \<Longrightarrow> ss \<noteq> [] \<Longrightarrow> run_iteration (demo (- 4) 8 [2,2] ys_line) fn_shift
     \<lparr>self_dim = d, nr_of_fevals = n, max_iterations = m, use_grid_improve = g,
      self_N = N', starting_N = sN, N_increment = ni, integration_domain = dm,
      rng = (), self_map = (), strat = (), results = rs, sigma2 = ss, self_it = i\<rparr> =
   Inr \<lparr>self_dim = d, nr_of_fevals = n + 8, max_iterations = m, use_grid_improve = g,
      self_N = N', starting_N = sN, N_increment = ni, integration_domain = dm,
      rng = (), self_map = (), strat = (), results = butlast rs @ [Fin (- 16)], sigma2 = butlast ss @ [Fin 5], self_it = i\<rparr>"
  by (simp add: run_iteration_def demo_def ys_line_def fn_shift_def fsq_def fsub_def fsum_def of_count_def Let_def set_last_def)

lemma demo_setup: "setup_integration_domain (demo lo w nh ys) ndim (Some d) b = Some d"
  by (simp add: demo_def)

lemma demo_prepare:
  "prepare (demo lo w nh ys) () fresh fn ndim N sdomain seed g m False =
     \<lparr>self_dim = ndim, nr_of_fevals = 0, max_iterations = m, use_grid_improve = g,
      self_N = N, starting_N = of_count (N div m), N_increment = N div m,
      integration_domain = sdomain, rng = (), self_map = (), strat = (),
      results = [], sigma2 = [], self_it = 0\<rparr>"
  by (simp add: prepare_def fresh_def)

section \<open>The main loop returns\<close>

lemma run_iteration_ok:
  assumes "results st \<noteq> []" and "sigma2 st \<noteq> []"
  shows "\<exists>st'. run_iteration c fn st = Inr st'
     \<and> length (results st') = length (results st)
     \<and> length (sigma2 st') = length (sigma2 st)"
  using assms unfolding run_iteration_def Let_def set_last_def
  by (auto split: prod.splits)

lemma chisq_sum_ok:
  "length vs = length rs \<Longrightarrow> \<exists>x. chisq_sum I rs vs a = Inr x"
  by (induction vs rs arbitrary: a rule: list_induct2) simp_all

lemma get_chisq_ok:
  "rs \<noteq> [] \<Longrightarrow> length vs = length rs \<Longrightarrow> \<exists>x. get_chisq rs vs = Inr x"
  using chisq_sum_ok[of vs rs] by (simp add: get_chisq_def get_result_eq)

lemma stability_check_ok:
  assumes "results st \<noteq> []" and "length (sigma2 st) = length (results st)"
  shows "\<exists>out. stability_check eps_rel eps_abs st = Inr out
     \<and> (out = Break st \<or> (\<exists>st'. out = Proceed st'
            \<and> length (sigma2 st') = length (results st')))"
proof -
  obtain x where x: "get_chisq (results st) (sigma2 st) = Inr x"
    using get_chisq_ok[OF assms] by blast
  show ?thesis
    unfolding stability_check_def Let_def using assms x
    by (simp add: get_result_eq)
qed

lemma loop_body_ok:
  assumes "length (sigma2 st) = length (results st)"
  shows "\<exists>out. loop_body c fn eps_rel eps_abs st = Inr out
     \<and> (case out of
           Break st' \<Rightarrow> results st' \<noteq> [] \<and> length (sigma2 st') = length (results st')
         | Proceed st' \<Rightarrow> length (sigma2 st') = length (results st'))"
proof -
  let ?st0 = "st\<lparr>self_it := self_it st + 1,
                  results := results st @ [Fin 0], sigma2 := sigma2 st @ [Fin 0]\<rparr>"
  obtain st1 where run: "run_iteration c fn ?st0 = Inr st1"
    and l1: "length (results st1) = length (results ?st0)"
    and l2: "length (sigma2 st1) = length (sigma2 ?st0)"
    using run_iteration_ok[of ?st0 c fn] by auto
  have ne: "results st1 \<noteq> []" using l1 by auto
  have eq: "length (sigma2 st1) = length (results st1)" using l1 l2 assms by simp
  obtain out where chk: "stability_check eps_rel eps_abs st1 = Inr out"
    and out: "out = Break st1 \<or> (\<exists>st'. out = Proceed st'
            \<and> length (sigma2 st') = length (results st'))"
    using stability_check_ok[OF ne eq] by blast
  show ?thesis
    unfolding loop_body_def using run ne eq chk out
    by auto
qed

lemma main_loop_returns:
  "length (sigma2 st) = length (results st) \<Longrightarrow>
   \<exists>st'. main_loop c fn eps_rel eps_abs st = Inr st'
     \<and> results st' \<noteq> [] \<and> length (sigma2 st') = length (results st')"
proof (induction c fn eps_rel eps_abs st rule: main_loop.induct)
  case (1 c fn eps_rel eps_abs st)
  obtain out where body: "loop_body c fn eps_rel eps_abs st = Inr out"
    and out: "case out of
           Break st' \<Rightarrow> results st' \<noteq> [] \<and> length (sigma2 st') = length (results st')
         | Proceed st' \<Rightarrow> length (sigma2 st') = length (results st')"
    using loop_body_ok[OF "1.prems"] by blast
  show ?case
  proof (cases out)
    case (Break st')
    then show ?thesis using body out by (subst main_loop.simps) simp
  next
    case (Proceed st')
    then have "length (sigma2 st') = length (results st')" using out by simp
    from "1.IH"[OF body Proceed this] show ?thesis
      using body Proceed by (subst main_loop.simps) simp
  qed
qed

lemma loop_body_Break:
  assumes "loop_body c fn eps_rel eps_abs st = Inr (Break st')"
  shows "self_it st' = self_it st + 1 \<and> max_iterations st' = max_iterations st"
proof -
  obtain st1 where run: "run_iteration c fn
             (st\<lparr>self_it := self_it st + 1,
                  results := results st @ [Fin 0], sigma2 := sigma2 st @ [Fin 0]\<rparr>) = Inr st1"
    using assms unfolding loop_body_def by (auto split: sum.splits)
  have it1: "self_it st1 = self_it st + 1" and m1: "max_iterations st1 = max_iterations st"
    using run_iteration_frame(1,2)[OF run] by simp_all
  have "st' = st1"
    using assms run stability_check_frame[of eps_rel eps_abs st1 "Break st'"]
    unfolding loop_body_def by (auto split: if_splits)
  then show ?thesis using it1 m1 by simp
qed

lemma main_loop_iterations:
  "main_loop c fn eps_rel eps_abs st = Inr st' \<Longrightarrow>
   self_it st < self_it st' \<and> self_it st' \<le> max (self_it st + 1) (max_iterations st + 1)
   \<and> max_iterations st' = max_iterations st"
proof (induction c fn eps_rel eps_abs st rule: main_loop.induct)
  case (1 c fn eps_rel eps_abs st)
  from "1.prems" obtain out where body: "loop_body c fn eps_rel eps_abs st = Inr out"
    by (subst (asm) main_loop.simps) (auto split: sum.splits)
  show ?case
  proof (cases out)
    case (Break st1)
    then have "st' = st1" using "1.prems" body by (subst (asm) main_loop.simps) simp
    then show ?thesis using loop_body_Break[of c fn eps_rel eps_abs st st1] body Break by simp
  next
    case (Proceed st1)
    then have rec: "main_loop c fn eps_rel eps_abs st1 = Inr st'"
      using "1.prems" body by (subst (asm) main_loop.simps) simp
    from "1.IH"[OF body Proceed rec] loop_body_Proceed[of c fn eps_rel eps_abs st st1] body Proceed
    show ?thesis by auto
  qed
qed

text \<open>
  C3, at a call the code can receive. For \<open>f(x) = x - 2\<close> over \<open>[-4, 4]\<close> every iteration
  records the estimate -16 with variance 5. At the fifth iteration the combined estimate
  is -16, the error is 1 and chi-square is 0. With \<open>eps_rel = eps_abs = 0\<close> the test of the
  specification fails (1/16 is not below 0, and neither is 1), but the code divides the error
  by the estimate itself: \<open>acc = -1/16 < 0\<close>, and the loop stops at iteration 5 with 40
  evaluations counted, of a budget of 80 and 20 iterations.
\<close>

theorem integrate_stops_on_negative_estimate:
  "report (integrate (demo (- 4) 8 [2, 2] ys_line) () fresh fn_shift 1 80
             (Some [[Fin (- 4), Fin 4]]) None True 0 0 20 False ''torch'')
     = Inr (Fin (- 16), 5, 40)
   \<and> final_records (integrate (demo (- 4) 8 [2, 2] ys_line) () fresh fn_shift 1 80
             (Some [[Fin (- 4), Fin 4]]) None True 0 0 20 False ''torch'')
     = (replicate 5 (Fin (- 16)), replicate 5 (Fin 5))
   \<and> error_spec (replicate 5 (Fin 5)) = Fin 1
   \<and> combined_spec (replicate 5 (Fin (- 16))) (replicate 5 (Fin 5)) = Fin (- 16)
   \<and> \<not> converged_spec 0 0 (replicate 5 (Fin (- 16))) (replicate 5 (Fin 5))"
proof (intro conjI)
  have run: "integrate (demo (- 4) 8 [2, 2] ys_line) () fresh fn_shift 1 80
             (Some [[Fin (- 4), Fin 4]]) None True 0 0 20 False ''torch''
     = Inr (Fin (- 16),
         \<lparr>self_dim = 1, nr_of_fevals = 40, max_iterations = 20, use_grid_improve = True,
          self_N = 80, starting_N = Fin 4, N_increment = 4,
          integration_domain = [[Fin (- 4), Fin 4]], rng = (), self_map = (), strat = (),
          results = replicate 5 (Fin (- 16)), sigma2 = replicate 5 (Fin 5), self_it = 5\<rparr>)"
    by (simp add: integrate_def check_inputs_def bad_bound_def demo_setup demo_prepare
      stratification_check_def
      main_loop.simps loop_body_def run_demo_line fgt_def fsub_def of_count_def
      stability_check_def get_result_def get_error_def get_chisq_def fmean_def fsum_def fsq_def
      Let_def numeral_eq_Suc)
  show "report (integrate (demo (- 4) 8 [2, 2] ys_line) () fresh fn_shift 1 80
             (Some [[Fin (- 4), Fin 4]]) None True 0 0 20 False ''torch'')
     = Inr (Fin (- 16), 5, 40)"
    unfolding run by (simp add: report_def)
  show "final_records (integrate (demo (- 4) 8 [2, 2] ys_line) () fresh fn_shift 1 80
             (Some [[Fin (- 4), Fin 4]]) None True 0 0 20 False ''torch'')
     = (replicate 5 (Fin (- 16)), replicate 5 (Fin 5))"
    unfolding run by (simp add: final_records_def)
  show "error_spec (replicate 5 (Fin 5)) = Fin 1"
    by (simp add: error_spec_def fsum_def numeral_eq_Suc)
  show c: "combined_spec (replicate 5 (Fin (- 16))) (replicate 5 (Fin 5)) = Fin (- 16)"
    by (simp add: combined_spec_def weighted_mean_spec_def fsum_def numeral_eq_Suc)
  show "\<not> converged_spec 0 0 (replicate 5 (Fin (- 16))) (replicate 5 (Fin 5))"
    by (simp add: converged_spec_def error_spec_def combined_spec_def weighted_mean_spec_def
        chisq_spec_def fsum_def fsq_def fsub_def numeral_eq_Suc)
qed

section \<open>The stability check\<close>

lemma flt_asym: "flt a b \<Longrightarrow> \<not> flt b a"
  by (cases a; cases b) simp_all

lemma stability_check_unstable:
  assumes chi: "get_chisq (results st) (sigma2 st) = Inr chi2"
    and gt: "fgt (fdiv chi2 (Fin 5)) (Fin 1)"
  shows "stability_check eps_rel eps_abs st =
     Inr (Proceed (st\<lparr>starting_N := fadd (starting_N st) (of_count (N_increment st)),
                       results := [], sigma2 := []\<rparr>))"
proof -
  obtain res where res: "get_result (results st) (sigma2 st) = Inr res"
    using chi unfolding get_chisq_def by (auto split: sum.splits)
  have nlt: "\<not> flt (fdiv chi2 (Fin 5)) (Fin 1)"
    using gt flt_asym unfolding fgt_def by blast
  show ?thesis
    unfolding stability_check_def Let_def using res chi nlt gt by simp
qed

lemma stability_check_N_increment:
  assumes "stability_check eps_rel eps_abs st = Inr (Proceed st')"
  shows "N_increment st' = N_increment st"
  using assms unfolding stability_check_def Let_def
  by (auto split: sum.splits if_splits)

lemma loop_body_N_increment:
  assumes "loop_body c fn eps_rel eps_abs st = Inr (Proceed st')"
  shows "N_increment st' = N_increment st"
proof -
  obtain st1 where run: "run_iteration c fn
             (st\<lparr>self_it := self_it st + 1,
                  results := results st @ [Fin 0], sigma2 := sigma2 st @ [Fin 0]\<rparr>) = Inr st1"
    using assms unfolding loop_body_def by (auto split: sum.splits)
  have n1: "N_increment st1 = N_increment st"
    using run_iteration_frame(3)[OF run] by simp
  have "st' = st1 \<or> stability_check eps_rel eps_abs st1 = Inr (Proceed st')"
    using assms run unfolding loop_body_def by (auto split: if_splits)
  then show ?thesis
  proof
    assume "st' = st1"
    then show ?thesis using n1 by simp
  next
    assume "stability_check eps_rel eps_abs st1 = Inr (Proceed st')"
    from stability_check_N_increment[OF this] show ?thesis using n1 by simp
  qed
qed

lemma warmup_iteration_fields:
  "self_dim (warmup_iteration c fn n st) = self_dim st
   \<and> max_iterations (warmup_iteration c fn n st) = max_iterations st
   \<and> use_grid_improve (warmup_iteration c fn n st) = use_grid_improve st
   \<and> self_N (warmup_iteration c fn n st) = self_N st
   \<and> starting_N (warmup_iteration c fn n st) = starting_N st
   \<and> N_increment (warmup_iteration c fn n st) = N_increment st
   \<and> integration_domain (warmup_iteration c fn n st) = integration_domain st
   \<and> strat (warmup_iteration c fn n st) = strat st
   \<and> self_it (warmup_iteration c fn n st) = self_it st"
  by (simp add: warmup_iteration_def Let_def split_beta)

lemma warmup_loop_fields:
  "self_dim (warmup_loop c fn n k st) = self_dim st
   \<and> max_iterations (warmup_loop c fn n k st) = max_iterations st
   \<and> use_grid_improve (warmup_loop c fn n k st) = use_grid_improve st
   \<and> self_N (warmup_loop c fn n k st) = self_N st
   \<and> starting_N (warmup_loop c fn n k st) = starting_N st
   \<and> N_increment (warmup_loop c fn n k st) = N_increment st
   \<and> integration_domain (warmup_loop c fn n k st) = integration_domain st
   \<and> strat (warmup_loop c fn n k st) = strat st
   \<and> self_it (warmup_loop c fn n k st) = self_it st"
  by (induction k arbitrary: st) (simp_all add: warmup_iteration_fields)

lemma warmup_grid_frame:
  "warmup_grid c fn k n st =
     st\<lparr>nr_of_fevals := nr_of_fevals (warmup_loop c fn n k st),
        rng := rng (warmup_loop c fn n k st), self_map := self_map (warmup_loop c fn n k st),
        results := [], sigma2 := []\<rparr>"
  unfolding warmup_grid_def
  by (rule vegas.equality) (simp_all add: warmup_loop_fields)

text \<open>
  C4, as the code has it. Whenever the stability check finds chi-square / 5 greater than 1,
  it leaves the loop running, adds one increment to \<open>_starting_N\<close> and clears both record
  lists; so does the pass of the loop that reaches the check (at an iteration divisible by 5
  that neither abort condition ended). The increment is \<open>N // max_iterations\<close>: \<open>integrate\<close>
  sets it so and no pass of the loop changes it.
\<close>

theorem unstable_check_grows_budget:
  "(get_chisq (results st) (sigma2 st) = Inr chi2 \<and> fgt (fdiv chi2 (Fin 5)) (Fin 1) \<longrightarrow>
      stability_check eps_rel eps_abs st =
        Inr (Proceed (st\<lparr>starting_N := fadd (starting_N st) (of_count (N_increment st)),
                          results := [], sigma2 := []\<rparr>)))
   \<and> (run_iteration c fn (st\<lparr>self_it := self_it st + 1, results := results st @ [Fin 0],
                               sigma2 := sigma2 st @ [Fin 0]\<rparr>) = Inr st1
        \<and> self_it st1 \<le> max_iterations st1
        \<and> \<not> fgt (of_count (nr_of_fevals st1)) (fsub (of_count (self_N st1)) (starting_N st1))
        \<and> self_it st1 mod 5 = 0
        \<and> get_chisq (results st1) (sigma2 st1) = Inr chi2 \<and> fgt (fdiv chi2 (Fin 5)) (Fin 1) \<longrightarrow>
      loop_body c fn eps_rel eps_abs st =
        Inr (Proceed (st1\<lparr>starting_N := fadd (starting_N st1) (of_count (N_increment st1)),
                           results := [], sigma2 := []\<rparr>)))
   \<and> N_increment (prepare c ambient self fn ndim N sdomain seed grid_improve max_it use_warmup)
        = N div max_it
   \<and> (loop_body c fn eps_rel eps_abs st = Inr (Proceed st') \<longrightarrow>
        N_increment st' = N_increment st)"
proof (intro conjI impI)
  assume "get_chisq (results st) (sigma2 st) = Inr chi2 \<and> fgt (fdiv chi2 (Fin 5)) (Fin 1)"
  then show "stability_check eps_rel eps_abs st =
        Inr (Proceed (st\<lparr>starting_N := fadd (starting_N st) (of_count (N_increment st)),
                          results := [], sigma2 := []\<rparr>))"
    by (simp add: stability_check_unstable)
next
  assume a: "run_iteration c fn (st\<lparr>self_it := self_it st + 1, results := results st @ [Fin 0],
                               sigma2 := sigma2 st @ [Fin 0]\<rparr>) = Inr st1
        \<and> self_it st1 \<le> max_iterations st1
        \<and> \<not> fgt (of_count (nr_of_fevals st1)) (fsub (of_count (self_N st1)) (starting_N st1))
        \<and> self_it st1 mod 5 = 0
        \<and> get_chisq (results st1) (sigma2 st1) = Inr chi2 \<and> fgt (fdiv chi2 (Fin 5)) (Fin 1)"
  then have "stability_check eps_rel eps_abs st1 =
        Inr (Proceed (st1\<lparr>starting_N := fadd (starting_N st1) (of_count (N_increment st1)),
                           results := [], sigma2 := []\<rparr>))"
    by (simp add: stability_check_unstable)
  then show "loop_body c fn eps_rel eps_abs st =
        Inr (Proceed (st1\<lparr>starting_N := fadd (starting_N st1) (of_count (N_increment st1)),
                           results := [], sigma2 := []\<rparr>))"
    using a unfolding loop_body_def by simp
next
  show "N_increment (prepare c ambient self fn ndim N sdomain seed grid_improve max_it use_warmup)
        = N div max_it"
    by (simp add: prepare_def warmup_grid_frame Let_def)
next
  assume "loop_body c fn eps_rel eps_abs st = Inr (Proceed st')"
  then show "N_increment st' = N_increment st" by (rule loop_body_N_increment)
qed

text \<open>
  The theorem at a pass of the loop whose five records are 4, 4, 4, 4, -16 with variance 5
  (chi-square 64), and at a check of the records 13, 7, 13, 7, 10 (chi-square 36/5): the
  budget goes from 4 to 8 and the records are cleared.
\<close>

theorem unstable_check_grows_budget_witness:
  "loop_body (demo (- 4) 8 [2, 2] ys_line) fn_shift 0 0 unstable_state =
     Inr (Proceed (unstable_state\<lparr>nr_of_fevals := 24, starting_N := Fin 8, self_it := 5,
                                   results := [], sigma2 := []\<rparr>))
   \<and> stability_check 0 0 (boundary_state\<lparr>results := [Fin 13, Fin 7, Fin 13, Fin 7, Fin 10]\<rparr>) =
     Inr (Proceed (boundary_state\<lparr>starting_N := Fin 8, results := [], sigma2 := []\<rparr>))"
proof
  have run: "run_iteration (demo (- 4) 8 [2, 2] ys_line) fn_shift
      (unstable_state\<lparr>self_it := self_it unstable_state + 1,
         results := results unstable_state @ [Fin 0],
         sigma2 := sigma2 unstable_state @ [Fin 0]\<rparr>) =
      Inr (unstable_state\<lparr>nr_of_fevals := 24, self_it := 5,
             results := [Fin 4, Fin 4, Fin 4, Fin 4, Fin (- 16)],
             sigma2 := [Fin 5, Fin 5, Fin 5, Fin 5, Fin 5]\<rparr>)"
    by (simp add: unstable_state_def run_demo_line)
  have chi: "get_chisq [Fin 4, Fin 4, Fin 4, Fin 4, Fin (- 16)]
               [Fin 5, Fin 5, Fin 5, Fin 5, Fin 5] = Inr (Fin 64)"
    by (simp add: get_chisq_def get_result_def fsq_def fsub_def)
  show "loop_body (demo (- 4) 8 [2, 2] ys_line) fn_shift 0 0 unstable_state =
     Inr (Proceed (unstable_state\<lparr>nr_of_fevals := 24, starting_N := Fin 8, self_it := 5,
                                   results := [], sigma2 := []\<rparr>))"
    using unstable_check_grows_budget[of unstable_state "Fin 64" 0 0
        "demo (- 4) 8 [2, 2] ys_line" fn_shift
        "unstable_state\<lparr>nr_of_fevals := 24, self_it := 5,
             results := [Fin 4, Fin 4, Fin 4, Fin 4, Fin (- 16)],
             sigma2 := [Fin 5, Fin 5, Fin 5, Fin 5, Fin 5]\<rparr>"] run chi
    by (simp add: unstable_state_def fgt_def fsub_def of_count_def)
  have chi2: "get_chisq [Fin 13, Fin 7, Fin 13, Fin 7, Fin 10]
               [Fin 5, Fin 5, Fin 5, Fin 5, Fin 5] = Inr (Fin (36 / 5))"
    by (simp add: get_chisq_def get_result_def fsq_def fsub_def)
  show "stability_check 0 0 (boundary_state\<lparr>results := [Fin 13, Fin 7, Fin 13, Fin 7, Fin 10]\<rparr>) =
     Inr (Proceed (boundary_state\<lparr>starting_N := Fin 8, results := [], sigma2 := []\<rparr>))"
    using unstable_check_grows_budget[of
        "boundary_state\<lparr>results := [Fin 13, Fin 7, Fin 13, Fin 7, Fin 10]\<rparr>" "Fin (36 / 5)" 0 0,
        THEN conjunct1] chi2
    by (simp add: boundary_state_def fresh_def fgt_def of_count_def)
qed

text \<open>
  C4 as stated fails where chi-square / 5 is exactly 1: for the records 12.5, 7.5, 12.5, 7.5,
  10 with variance 5 each, chi-square is 5, and the check changes nothing: the budget stays
  4 and the five records stay.
\<close>

theorem stability_check_boundary_counterexample:
  "get_chisq (results boundary_state) (sigma2 boundary_state) = Inr (Fin 5)
   \<and> fge (fdiv (Fin 5) (Fin 5)) (Fin 1)
   \<and> stability_check 0 0 boundary_state = Inr (Proceed boundary_state)
   \<and> starting_N boundary_state = Fin 4 \<and> length (results boundary_state) = 5"
  by (simp add: boundary_state_def fresh_def stability_check_def get_chisq_def get_result_def
      get_error_def fsq_def fsub_def fge_def fgt_def Let_def)

section \<open>The records of the warmup\<close>







section \<open>Configuration errors\<close>

text \<open>
  C7. When \<open>dim \<le> 0\<close>, when a bound of the domain is malformed or its lower end is not below
  its upper end, when the length of the domain is not \<open>dim\<close>, or when \<open>N\<close> is too small to
  give every cube of the stratification its 2 evaluations (\<open>N < 2\<close>, or
  \<open>N // max_iterations < 2\<close> evaluations per iteration), \<open>integrate\<close> ends with the
  configuration error; and in each of these cases the outcome is the same for every
  integrand, every map, stratification and generator, and every object: none of them is
  consulted.
\<close>

theorem integrate_rejects_configuration:
  "(ndim \<le> 0 \<or> N < 2
     \<or> (\<exists>d. domain = Some d \<and> (list_ex bad_bound d \<or> int (length d) \<noteq> ndim))
     \<or> (max_it \<noteq> 0 \<and> N div max_it < 2) \<longrightarrow>
      integrate c ambient self fn ndim N domain seed grid_improve eps_rel eps_abs max_it
        use_warmup backend = Inl ConfigurationError
      \<and> integrate c' ambient' self' fn' ndim N domain seed' grid_improve' eps_rel' eps_abs' max_it
        use_warmup' backend' = Inl ConfigurationError)
   \<and> (check_inputs ndim N domain \<noteq> None \<longrightarrow>
      integrate c ambient self fn ndim N domain seed grid_improve eps_rel eps_abs max_it
        use_warmup backend =
      integrate c' ambient' self' fn' ndim N domain seed' grid_improve' eps_rel' eps_abs' max_it'
        use_warmup' backend')"
  by (auto simp: integrate_def check_inputs_def stratification_check_def
      split: option.splits)

text \<open>
  The theorem for \<open>dim = 0\<close>, for an inverted bound, and for \<open>N = 10\<close> with
  \<open>max_iterations = 20\<close>, where two calls with different integrands and collaborators end
  alike.
\<close>

theorem integrate_rejects_configuration_witness:
  "integrate (demo 0 1 [2, 2, 2, 2] ys_square) () fresh fn_one 0 81 None None True 0 0 9
       False ''torch'' = Inl ConfigurationError
   \<and> integrate (demo 0 1 [2, 2, 2, 2] ys_square) () fresh fn_one 2 81
       (Some [[Fin 1, Fin 0], [Fin 0, Fin 1]]) None True 0 0 9 False ''torch''
       = Inl ConfigurationError
   \<and> integrate (demo 0 1 [2, 2, 2, 2] ys_square) () fresh fn_one 2 10 (Some [[Fin 0, Fin 1], [Fin 0, Fin 1]]) None True 0 0 20 False ''torch''
       = Inl ConfigurationError
   \<and> integrate (demo (- 4) 8 [2, 2] ys_line) () boundary_state fn_shift 2 10 (Some [[Fin 0, Fin 1], [Fin 0, Fin 1]])
       (Some 3) False 1 1 20 True ''numpy'' = Inl ConfigurationError"
proof -
  have bad: "list_ex bad_bound [[Fin 1, Fin 0], [Fin 0, Fin 1]]"
    by (simp add: bad_bound_def)
  have small: "(20::int) \<noteq> 0 \<and> (10::int) div 20 < 2" by simp
  have one: "integrate (demo 0 1 [2, 2, 2, 2] ys_square) () fresh fn_one 0 81 None None True
       0 0 9 False ''torch'' = Inl ConfigurationError"
    using integrate_rejects_configuration[where ndim = 0 and N = 81 and domain = None
      and c = "demo 0 1 [2, 2, 2, 2] ys_square" and ambient = "()" and self = fresh
      and fn = fn_one and seed = None and grid_improve = True and eps_rel = 0 and eps_abs = 0
      and max_it = 9 and use_warmup = False and backend = "''torch''", THEN conjunct1,
      THEN mp, THEN conjunct1]
    by simp
  have two: "integrate (demo 0 1 [2, 2, 2, 2] ys_square) () fresh fn_one 2 81
       (Some [[Fin 1, Fin 0], [Fin 0, Fin 1]]) None True 0 0 9 False ''torch''
       = Inl ConfigurationError"
    using integrate_rejects_configuration[where ndim = 2 and N = 81
      and domain = "Some [[Fin 1, Fin 0], [Fin 0, Fin 1]]"
      and c = "demo 0 1 [2, 2, 2, 2] ys_square" and ambient = "()" and self = fresh
      and fn = fn_one and seed = None and grid_improve = True and eps_rel = 0 and eps_abs = 0
      and max_it = 9 and use_warmup = False and backend = "''torch''", THEN conjunct1, THEN mp, THEN conjunct1] bad
    by simp
  have three: "integrate (demo 0 1 [2, 2, 2, 2] ys_square) () fresh fn_one 2 10 (Some [[Fin 0, Fin 1], [Fin 0, Fin 1]]) None True 0 0 20 False ''torch''
       = Inl ConfigurationError
     \<and> integrate (demo (- 4) 8 [2, 2] ys_line) () boundary_state fn_shift 2 10 (Some [[Fin 0, Fin 1], [Fin 0, Fin 1]])
       (Some 3) False 1 1 20 True ''numpy'' = Inl ConfigurationError"
    using integrate_rejects_configuration[where ndim = 2 and N = 10
      and domain = "Some [[Fin 0, Fin 1], [Fin 0, Fin 1]]" and max_it = 20
      and c = "demo 0 1 [2, 2, 2, 2] ys_square" and ambient = "()" and self = fresh
      and fn = fn_one and seed = None and grid_improve = True and eps_rel = 0 and eps_abs = 0
      and use_warmup = False and backend = "''torch''"
      and c' = "demo (- 4) 8 [2, 2] ys_line" and ambient' = "()" and self' = boundary_state
      and fn' = fn_shift and seed' = "Some 3" and grid_improve' = False and eps_rel' = 1
      and eps_abs' = 1 and use_warmup' = True and backend' = "''numpy''", THEN conjunct1, THEN mp]
      small
    by simp
  show ?thesis using one two three by blast
qed

section \<open>The fixed domains of Gauss-Laguerre and Gauss-Hermite\<close>

text \<open>
  C9. For a Gauss-Laguerre object the domain \<open>integrate\<close> works with is \<open>[0, inf)\<close> in each
  dimension and for a Gauss-Hermite object \<open>(-inf, inf)\<close>, whatever domain the caller
  passes; the result of \<open>integrate\<close> is the one for no domain at all.
\<close>

theorem gaussian_fixed_domain:
  "chosen_domain (with_cache GaussLaguerre k) ndim domain = replicate (nat ndim) [Fin 0, PInf]
   \<and> chosen_domain (with_cache GaussHermite k) ndim domain = replicate (nat ndim) [MInf, PInf]
   \<and> gaussian_integrate q (with_cache GaussLaguerre k) fn ndim args N domain backend =
       gaussian_integrate q (with_cache GaussLaguerre k) fn ndim args N None backend
   \<and> gaussian_integrate q (with_cache GaussHermite k) fn ndim args N domain backend =
       gaussian_integrate q (with_cache GaussHermite k) fn ndim args N None backend"
proof -
  have rep: "\<And>x n. concat (replicate n [x]) = replicate n x"
    by (induct_tac n) simp_all
  have a: "chosen_domain (with_cache GaussLaguerre k) ndim domain = replicate (nat ndim) [Fin 0, PInf]"
    by (simp add: chosen_domain_def with_cache_def Gaussian_init_def rep split: option.splits)
  have b: "chosen_domain (with_cache GaussHermite k) ndim domain = replicate (nat ndim) [MInf, PInf]"
    by (simp add: chosen_domain_def with_cache_def Gaussian_init_def rep split: option.splits)
  have a': "chosen_domain (with_cache GaussLaguerre k) ndim None = replicate (nat ndim) [Fin 0, PInf]"
    by (simp add: chosen_domain_def with_cache_def Gaussian_init_def rep)
  have b': "chosen_domain (with_cache GaussHermite k) ndim None = replicate (nat ndim) [MInf, PInf]"
    by (simp add: chosen_domain_def with_cache_def Gaussian_init_def rep)
  show ?thesis
    unfolding gaussian_integrate_def a b a' b' by simp
qed

section \<open>The samples of the warmup\<close>

lemma scaled_sample:
  assumes "0 \<le> v" and "v < 1"
  shows "0 \<le> v * (999999 / 1000000 :: real)" and "v * (999999 / 1000000 :: real) < 999999 / 1000000"
  using assms by simp_all

lemma bin_index:
  assumes "0 \<le> y" and "y < (1::real)"
  shows "\<lfloor>y * real_of_int (N_intervals N max_it)\<rfloor> \<le> N_intervals N max_it - 1"
proof -
  have n: "2 \<le> N_intervals N max_it" by (simp add: N_intervals_def)
  then have "y * real_of_int (N_intervals N max_it) < real_of_int (N_intervals N max_it)"
    using assms by simp
  then have "\<lfloor>y * real_of_int (N_intervals N max_it)\<rfloor> < N_intervals N max_it"
    by (simp add: floor_less_iff)
  then show ?thesis by simp
qed

lemma warmup_yrnd_range: "unit_samples u \<Longrightarrow> warmup_range (warmup_yrnd u)"
  by (auto simp: unit_samples_def warmup_range_def warmup_yrnd_def list_all_iff)

lemma warmup_iteration_map_calls:
  assumes u: "unit_samples (fst (rng_uniform c (rng st) n (self_dim st)))"
    and gx: "\<forall>m y. warmup_range y \<longrightarrow> gx m y = map_get_X c m y"
    and gj: "\<forall>m y. warmup_range y \<longrightarrow> gj m y = map_get_Jac c m y"
    and aw: "\<forall>m y w. warmup_range y \<longrightarrow> aw m y w = map_accumulate_weight c m y w"
  shows "warmup_iteration
           (c\<lparr>map_get_X := gx, map_get_Jac := gj, map_accumulate_weight := aw\<rparr>) fn n st =
         warmup_iteration c fn n st"
proof -
  obtain uu r1 where ur: "rng_uniform c (rng st) n (self_dim st) = (uu, r1)"
    by (cases "rng_uniform c (rng st) n (self_dim st)")
  have "warmup_range (warmup_yrnd uu)" using u ur warmup_yrnd_range by simp
  then show ?thesis
    using gx gj aw ur by (simp add: warmup_iteration_def Let_def)
qed

text \<open>
  C10. For uniform values in \<open>[0, 1)\<close>, every coordinate of the warmup's sample is in
  \<open>[0, 0.999999)\<close>, so below 1, and its bin index \<open>floor(y * n_intervals)\<close> is at most
  \<open>n_intervals - 1\<close>. The warmup iteration consults \<open>get_X\<close>, \<open>get_Jac\<close> and
  \<open>accumulate_weight\<close> of the map at such samples only: replacing the three by functions that
  agree with them on samples in that range does not change the iteration.
\<close>

theorem warmup_samples_below_one:
  "(unit_samples u \<longrightarrow>
      (\<forall>row \<in> set (warmup_yrnd u). \<forall>y \<in> set row.
         0 \<le> y \<and> y < 999999 / 1000000 \<and> y < 1
         \<and> \<lfloor>y * real_of_int (N_intervals N max_it)\<rfloor> \<le> N_intervals N max_it - 1))
   \<and> (unit_samples (fst (rng_uniform c (rng st) n (self_dim st)))
        \<and> (\<forall>m y. warmup_range y \<longrightarrow> gx m y = map_get_X c m y)
        \<and> (\<forall>m y. warmup_range y \<longrightarrow> gj m y = map_get_Jac c m y)
        \<and> (\<forall>m y w. warmup_range y \<longrightarrow> aw m y w = map_accumulate_weight c m y w) \<longrightarrow>
      warmup_iteration
           (c\<lparr>map_get_X := gx, map_get_Jac := gj, map_accumulate_weight := aw\<rparr>) fn n st =
         warmup_iteration c fn n st)"
proof (intro conjI impI ballI)
  fix row y assume us: "unit_samples u" and row: "row \<in> set (warmup_yrnd u)" and y: "y \<in> set row"
  have "warmup_range (warmup_yrnd u)" using us by (rule warmup_yrnd_range)
  then have r: "0 \<le> y" "y < 999999 / 1000000"
    using row y by (auto simp: warmup_range_def list_all_iff)
  then have y1: "y < 1" by simp
  show "0 \<le> y" "y < 999999 / 1000000" "y < 1" using r y1 by simp_all
  show "\<lfloor>y * real_of_int (N_intervals N max_it)\<rfloor> \<le> N_intervals N max_it - 1"
    using bin_index[OF r(1) y1] .
next
  assume "unit_samples (fst (rng_uniform c (rng st) n (self_dim st)))
        \<and> (\<forall>m y. warmup_range y \<longrightarrow> gx m y = map_get_X c m y)
        \<and> (\<forall>m y. warmup_range y \<longrightarrow> gj m y = map_get_Jac c m y)
        \<and> (\<forall>m y w. warmup_range y \<longrightarrow> aw m y w = map_accumulate_weight c m y w)"
  then show "warmup_iteration
           (c\<lparr>map_get_X := gx, map_get_Jac := gj, map_accumulate_weight := aw\<rparr>) fn n st =
         warmup_iteration c fn n st"
    by (intro warmup_iteration_map_calls) simp_all
qed

text \<open>
  The theorem for the draw \<open>0, 1/2\<close> with 50 intervals, and for a map that answers
  only inside the range.
\<close>

theorem warmup_samples_below_one_witness:
  "unit_samples [[0, 1 / 2]]
   \<and> warmup_yrnd [[0, 1 / 2]] = [[0, 999999 / 2000000]]
   \<and> N_intervals 10000 20 = 50
   \<and> \<lfloor>(999999 / 2000000) * real_of_int (N_intervals 10000 20)\<rfloor> \<le> N_intervals 10000 20 - 1
   \<and> warmup_iteration
        ((demo 0 1 [2, 2, 2, 2] ys_square)
           \<lparr>map_get_X := (\<lambda>m y. if warmup_range y then map (map Fin) y else []),
            map_get_Jac := (\<lambda>m y. if warmup_range y then map (\<lambda>row. Fin 1) y else []),
            map_accumulate_weight := (\<lambda>m y w. ())\<rparr>) fn_one 3 boundary_state
       = warmup_iteration (demo 0 1 [2, 2, 2, 2] ys_square) fn_one 3 boundary_state"
  using warmup_samples_below_one[of "[[0, 1 / 2]]" 10000 20 "demo 0 1 [2, 2, 2, 2] ys_square"
      boundary_state 3 "\<lambda>m y. if warmup_range y then map (map Fin) y else []"
      "\<lambda>m y. if warmup_range y then map (\<lambda>row. Fin 1) y else []" "\<lambda>m y w. ()" fn_one]
  by (simp add: unit_samples_def warmup_yrnd_def N_intervals_def demo_def boundary_state_def
      fresh_def list_all_iff)

section \<open>integrate returns\<close>

lemma prepare_start:
  "length (sigma2 (prepare c ambient self fn ndim N sdomain seed grid_improve max_it use_warmup))
     = length (results (prepare c ambient self fn ndim N sdomain seed grid_improve max_it
                          use_warmup))
   \<and> self_it (prepare c ambient self fn ndim N sdomain seed grid_improve max_it use_warmup) = 0
   \<and> max_iterations (prepare c ambient self fn ndim N sdomain seed grid_improve max_it
        use_warmup) = max_it"
  by (simp add: prepare_def warmup_grid_frame Let_def)

text \<open>
  Once the inputs pass the checks, \<open>max_iterations\<close> is not 0 and the domain is set up,
  \<open>integrate\<close> returns the combined estimate of its records after at least one and at most
  \<open>max_iterations + 1\<close> sampling iterations, whatever \<open>eps_rel\<close> and \<open>eps_abs\<close> are.
\<close>

theorem integrate_returns:
  "check_inputs ndim N domain = None \<and> max_it \<noteq> 0 \<and> 2 \<le> N div max_it
     \<and> setup_integration_domain c ndim domain backend = Some sdomain \<longrightarrow>
   (\<exists>v st. integrate c ambient self fn ndim N domain seed grid_improve eps_rel eps_abs max_it
              use_warmup backend = Inr (v, st)
      \<and> 1 \<le> self_it st \<and> self_it st \<le> max 1 (max_it + 1)
      \<and> get_result (results st) (sigma2 st) = Inr v)"
proof
  assume a: "check_inputs ndim N domain = None \<and> max_it \<noteq> 0 \<and> 2 \<le> N div max_it
     \<and> setup_integration_domain c ndim domain backend = Some sdomain"
  let ?p = "prepare c ambient self fn ndim N sdomain seed grid_improve max_it use_warmup"
  obtain st where loop: "main_loop c fn eps_rel eps_abs ?p = Inr st"
    and ne: "results st \<noteq> []" and len: "length (sigma2 st) = length (results st)"
    using main_loop_returns[of ?p c fn eps_rel eps_abs] prepare_start[of c ambient self fn ndim N
        sdomain seed grid_improve max_it use_warmup] by auto
  have it: "self_it ?p < self_it st \<and> self_it st \<le> max (self_it ?p + 1) (max_iterations ?p + 1)"
    using main_loop_iterations[OF loop] by simp
  obtain v where v: "get_result (results st) (sigma2 st) = Inr v"
    using get_result_eq[OF ne len] by simp
  have "integrate c ambient self fn ndim N domain seed grid_improve eps_rel eps_abs max_it
              use_warmup backend = Inr (v, st)"
    using a loop v by (simp add: integrate_def stratification_check_def)
  moreover have "1 \<le> self_it st \<and> self_it st \<le> max 1 (max_it + 1)"
    using it prepare_start[of c ambient self fn ndim N sdomain seed grid_improve max_it
        use_warmup] by simp
  ultimately show "\<exists>v st. integrate c ambient self fn ndim N domain seed grid_improve eps_rel
              eps_abs max_it use_warmup backend = Inr (v, st)
      \<and> 1 \<le> self_it st \<and> self_it st \<le> max 1 (max_it + 1)
      \<and> get_result (results st) (sigma2 st) = Inr v"
    using v by blast
qed

text \<open>The theorem for the call with \<open>N = 81\<close> and \<open>max_iterations = 9\<close>.\<close>

theorem integrate_returns_witness:
  "\<exists>v st. integrate (demo 0 1 [2, 2, 2, 2] ys_square) () fresh fn_one 2 81
       (Some [[Fin 0, Fin 1], [Fin 0, Fin 1]]) None True 0 0 9 False ''torch'' = Inr (v, st)
      \<and> 1 \<le> self_it st \<and> self_it st \<le> 10"
proof -
  have h: "check_inputs 2 81 (Some [[Fin 0, Fin 1], [Fin 0, Fin 1]]) = None \<and> (9::int) \<noteq> 0
     \<and> (2::int) \<le> 81 div 9
     \<and> setup_integration_domain (demo 0 1 [2, 2, 2, 2] ys_square) 2
         (Some [[Fin 0, Fin 1], [Fin 0, Fin 1]]) ''torch'' = Some [[Fin 0, Fin 1], [Fin 0, Fin 1]]"
    by (simp add: check_inputs_def bad_bound_def demo_def)
  from integrate_returns[of 2 81 "Some [[Fin 0, Fin 1], [Fin 0, Fin 1]]" 9
      "demo 0 1 [2, 2, 2, 2] ys_square" "''torch''" "[[Fin 0, Fin 1], [Fin 0, Fin 1]]"
      "()" fresh fn_one None True 0 0 False, THEN mp, OF h]
  obtain v st where "integrate (demo 0 1 [2, 2, 2, 2] ys_square) () fresh fn_one 2 81
       (Some [[Fin 0, Fin 1], [Fin 0, Fin 1]]) None True 0 0 9 False ''torch'' = Inr (v, st)"
    and "1 \<le> self_it st" and "self_it st \<le> max 1 (9 + 1)"
    by blast
  then show ?thesis by auto
qed

end
